theory Spec2Isabelle
  imports Main "HOL-Library.Word"
begin

section \<open>The session write model (internal/command/session_model.go)\<close>

subsection \<open>Types the source file imports\<close>

text \<open>
  A Go \<open>time.Time\<close> is used by the source only through \<open>After\<close> and \<open>IsZero\<close>, which
  both look at the instant alone. A time is therefore modelled as its instant: the signed
  number of nanoseconds since the zero time (January 1 of year 1, 00:00:00 UTC). Instants
  before the zero time are representable in Go and are the negative numbers here.
\<close>

type_synonym Time = int

definition zeroTime :: Time where
  \<comment> \<open>the value of \<open>var authTime time.Time\<close>\<close>
  "zeroTime = 0"

definition After :: "Time \<Rightarrow> Time \<Rightarrow> bool" where
  \<comment> \<open>\<open>t.After(u)\<close>: \<open>t\<close> is strictly later than \<open>u\<close>\<close>
  "After t u = (u < t)"

definition IsZero :: "Time \<Rightarrow> bool" where
  "IsZero t = (t = 0)"

type_synonym byte = "8 word"

text \<open>
  Modelled from the spec: the declarations of package \<open>domain\<close> are not among the source
  files. \<open>SessionState\<close> is the enumeration {uninitialized, active, terminated} whose
  first member is the value of a fresh model; \<open>UserAuthMethodType\<close> lists the factor
  kinds; \<open>UserVerificationRequirement\<close> is an enumeration that the source only copies,
  kept as its ordinal.
\<close>

datatype SessionState =
    SessionStateUnspecified
  | SessionStateActive
  | SessionStateTerminated

datatype UserAuthMethodType =
    UserAuthMethodTypeUnspecified
  | UserAuthMethodTypeTOTP
  | UserAuthMethodTypeU2F
  | UserAuthMethodTypePasswordless
  | UserAuthMethodTypePassword
  | UserAuthMethodTypeIDP
  | UserAuthMethodTypeOTPSMS
  | UserAuthMethodTypeOTPEmail

type_synonym UserVerificationRequirement = nat

text \<open>
  Modelled from the spec: the event types of package \<open>session\<close> are not among the source
  files. Each constructor is one concrete event type of the type switch in \<open>Reduce\<close>, with
  the payload fields the reducers read (\<open>UserID\<close>, \<open>CheckedAt\<close>, \<open>Challenge\<close>,
  \<open>AllowedCrentialIDs\<close>, \<open>UserVerification\<close>, \<open>RPID\<close>, \<open>UserVerified\<close>, \<open>TokenID\<close>).
  A metadata-set event carries key/value pairs. \<open>OtherEvent\<close> stands for any event of a
  type the switch does not name.
\<close>

datatype event =
    AddedEvent
  | UserCheckedEvent string Time
  | PasswordCheckedEvent Time
  | IntentCheckedEvent Time
  | WebAuthNChallengedEvent string "byte list list" UserVerificationRequirement string
  | WebAuthNCheckedEvent Time bool
  | TOTPCheckedEvent Time
  | TokenSetEvent string
  | MetadataSetEvent "(string \<times> byte list) list"
  | TerminateEvent
  | OtherEvent

text \<open>The event type constants passed to \<open>EventTypes\<close> in \<open>Query\<close>.\<close>

datatype EventType =
    AddedType
  | UserCheckedType
  | PasswordCheckedType
  | IntentCheckedType
  | WebAuthNChallengedType
  | WebAuthNCheckedType
  | TOTPCheckedType
  | TokenSetType
  | MetadataSetType
  | TerminateType

datatype error = Error string

text \<open>
  Modelled from the spec: \<open>eventstore.WriteModel\<close> and \<open>eventstore.Aggregate\<close> are not
  among the source files. The write model base holds the aggregate identity and the ordered
  buffer of events pending fold; only the fields the source reads are kept. An aggregate
  identity is the triple (type, id, owner).
\<close>

record WriteModel =
  AggregateID :: string
  ResourceOwner :: string
  Events :: "event list"

record Aggregate =
  agg_ID :: string
  agg_Type :: string
  agg_ResourceOwner :: string

definition AggregateType :: string where
  \<comment> \<open>Modelled from the spec: \<open>session.AggregateType\<close>, aggregate type = "session"\<close>
  "AggregateType = ''session''"

definition NewAggregate :: "string \<Rightarrow> string \<Rightarrow> Aggregate" where
  \<comment> \<open>Modelled from the spec: \<open>session.NewAggregate\<close>, the identity of one session\<close>
  "NewAggregate sessionID resourceOwner =
     \<lparr>agg_ID = sessionID, agg_Type = AggregateType, agg_ResourceOwner = resourceOwner\<rparr>"

subsection \<open>The structs of the source file\<close>

record WebAuthNChallengeModel =
  Challenge :: string
  AllowedCrentialIDs :: "byte list list"
  UserVerification :: UserVerificationRequirement
  RPID :: string

text \<open>
  The embedded \<open>eventstore.WriteModel\<close> is the field \<open>WriteModel\<close>; the pointer fields
  \<open>WebAuthNChallenge\<close> and \<open>aggregate\<close> are options, \<open>None\<close> being nil.
\<close>

record SessionWriteModel =
  WriteModel :: WriteModel
  TokenID :: string
  UserID :: string
  UserCheckedAt :: Time
  PasswordCheckedAt :: Time
  IntentCheckedAt :: Time
  WebAuthNCheckedAt :: Time
  TOTPCheckedAt :: Time
  WebAuthNUserVerified :: bool
  Metadata :: "string \<rightharpoonup> byte list"
  State :: SessionState
  WebAuthNChallenge :: "WebAuthNChallengeModel option"
  aggregate :: "Aggregate option"

definition NewSessionWriteModel :: "string \<Rightarrow> string \<Rightarrow> SessionWriteModel" where
  \<comment> \<open>every field the composite literal leaves out has its zero value\<close>
  "NewSessionWriteModel sessionID resourceOwner =
     \<lparr>WriteModel = \<lparr>AggregateID = sessionID, ResourceOwner = resourceOwner, Events = []\<rparr>,
      TokenID = '''',
      UserID = '''',
      UserCheckedAt = zeroTime,
      PasswordCheckedAt = zeroTime,
      IntentCheckedAt = zeroTime,
      WebAuthNCheckedAt = zeroTime,
      TOTPCheckedAt = zeroTime,
      WebAuthNUserVerified = False,
      Metadata = Map.empty,
      State = SessionStateUnspecified,
      WebAuthNChallenge = None,
      aggregate = Some (NewAggregate sessionID resourceOwner)\<rparr>"

subsection \<open>The reducers\<close>

definition reduceAdded :: "SessionWriteModel \<Rightarrow> SessionWriteModel" where
  "reduceAdded wm = wm\<lparr>State := SessionStateActive\<rparr>"

definition reduceUserChecked :: "string \<Rightarrow> Time \<Rightarrow> SessionWriteModel \<Rightarrow> SessionWriteModel" where
  "reduceUserChecked e_UserID e_CheckedAt wm =
     wm\<lparr>UserID := e_UserID, UserCheckedAt := e_CheckedAt\<rparr>"

definition reducePasswordChecked :: "Time \<Rightarrow> SessionWriteModel \<Rightarrow> SessionWriteModel" where
  "reducePasswordChecked e_CheckedAt wm = wm\<lparr>PasswordCheckedAt := e_CheckedAt\<rparr>"

definition reduceIntentChecked :: "Time \<Rightarrow> SessionWriteModel \<Rightarrow> SessionWriteModel" where
  "reduceIntentChecked e_CheckedAt wm = wm\<lparr>IntentCheckedAt := e_CheckedAt\<rparr>"

definition reduceWebAuthNChallenged ::
  "string \<Rightarrow> byte list list \<Rightarrow> UserVerificationRequirement \<Rightarrow> string \<Rightarrow>
   SessionWriteModel \<Rightarrow> SessionWriteModel" where
  "reduceWebAuthNChallenged e_Challenge e_AllowedCrentialIDs e_UserVerification e_RPID wm =
     wm\<lparr>WebAuthNChallenge := Some
          \<lparr>Challenge = e_Challenge,
           AllowedCrentialIDs = e_AllowedCrentialIDs,
           UserVerification = e_UserVerification,
           RPID = e_RPID\<rparr>\<rparr>"

definition reduceWebAuthNChecked :: "Time \<Rightarrow> bool \<Rightarrow> SessionWriteModel \<Rightarrow> SessionWriteModel" where
  "reduceWebAuthNChecked e_CheckedAt e_UserVerified wm =
     wm\<lparr>WebAuthNChallenge := None,
        WebAuthNCheckedAt := e_CheckedAt,
        WebAuthNUserVerified := e_UserVerified\<rparr>"

definition reduceTOTPChecked :: "Time \<Rightarrow> SessionWriteModel \<Rightarrow> SessionWriteModel" where
  "reduceTOTPChecked e_CheckedAt wm = wm\<lparr>TOTPCheckedAt := e_CheckedAt\<rparr>"

definition reduceTokenSet :: "string \<Rightarrow> SessionWriteModel \<Rightarrow> SessionWriteModel" where
  "reduceTokenSet e_TokenID wm = wm\<lparr>TokenID := e_TokenID\<rparr>"

definition reduceTerminate :: "SessionWriteModel \<Rightarrow> SessionWriteModel" where
  "reduceTerminate wm = wm\<lparr>State := SessionStateTerminated\<rparr>"

text \<open>
  The body of the loop in \<open>Reduce\<close>: the type switch. It has nine cases and no default;
  an event of any other type, a metadata-set event included, falls through it.
\<close>

fun reduceEvent :: "event \<Rightarrow> SessionWriteModel \<Rightarrow> SessionWriteModel" where
  "reduceEvent AddedEvent wm = reduceAdded wm"
| "reduceEvent (UserCheckedEvent u t) wm = reduceUserChecked u t wm"
| "reduceEvent (PasswordCheckedEvent t) wm = reducePasswordChecked t wm"
| "reduceEvent (IntentCheckedEvent t) wm = reduceIntentChecked t wm"
| "reduceEvent (WebAuthNChallengedEvent c ids uv rp) wm = reduceWebAuthNChallenged c ids uv rp wm"
| "reduceEvent (WebAuthNCheckedEvent t v) wm = reduceWebAuthNChecked t v wm"
| "reduceEvent (TOTPCheckedEvent t) wm = reduceTOTPChecked t wm"
| "reduceEvent (TokenSetEvent tok) wm = reduceTokenSet tok wm"
| "reduceEvent TerminateEvent wm = reduceTerminate wm"
| "reduceEvent (MetadataSetEvent kvs) wm = wm"
| "reduceEvent OtherEvent wm = wm"

text \<open>The loop \<open>for _, event := range wm.Events\<close>, oldest event first.\<close>

primrec reduceEvents :: "event list \<Rightarrow> SessionWriteModel \<Rightarrow> SessionWriteModel" where
  "reduceEvents [] wm = wm"
| "reduceEvents (e # es) wm = reduceEvents es (reduceEvent e wm)"

text \<open>
  \<open>Reduce\<close> runs the loop and then calls \<open>wm.WriteModel.Reduce()\<close>, whose error it returns.
  That method of the embedded base is not among the source files; it is the parameter
  \<open>base\<close>. Its receiver is the embedded \<open>WriteModel\<close>, so it reads and writes that field
  only. The model is mutated in place whether or not an error is returned, so \<open>Reduce\<close>
  yields the error (if any) together with the model after the call.
\<close>

definition Reduce ::
  "(WriteModel \<Rightarrow> error option \<times> WriteModel) \<Rightarrow> SessionWriteModel \<Rightarrow>
   error option \<times> SessionWriteModel" where
  "Reduce base wm =
     (let wm1 = reduceEvents (Events (WriteModel wm)) wm;
          (err, b) = base (WriteModel wm1)
      in (err, wm1\<lparr>WriteModel := b\<rparr>))"

text \<open>
  A base reducer for evaluating \<open>Reduce\<close> on concrete inputs: it empties the buffer of
  folded events and reports no error.
\<close>

definition clearEvents :: "WriteModel \<Rightarrow> error option \<times> WriteModel" where
  "clearEvents b = (None, b\<lparr>Events := []\<rparr>)"

text \<open>
  \<open>replay base wm es\<close> is the projection after the events \<open>es\<close> have been put into the
  buffer of \<open>wm\<close> and \<open>Reduce\<close> has run.
\<close>

definition withEvents :: "event list \<Rightarrow> SessionWriteModel \<Rightarrow> SessionWriteModel" where
  "withEvents es wm = wm\<lparr>WriteModel := (WriteModel wm)\<lparr>Events := es\<rparr>\<rparr>"

definition replay ::
  "(WriteModel \<Rightarrow> error option \<times> WriteModel) \<Rightarrow> SessionWriteModel \<Rightarrow> event list \<Rightarrow>
   SessionWriteModel" where
  "replay base wm es = snd (Reduce base (withEvents es wm))"

subsection \<open>Derived queries\<close>

text \<open>
  \<open>AuthenticationTime\<close>: the loop over the four check times, \<open>authTime\<close> starting as the
  zero time.
\<close>

definition AuthenticationTime :: "SessionWriteModel \<Rightarrow> Time" where
  "AuthenticationTime wm =
     foldl (\<lambda>authTime check. if After check authTime then check else authTime)
       zeroTime
       [PasswordCheckedAt wm, WebAuthNCheckedAt wm, TOTPCheckedAt wm, IntentCheckedAt wm]"

definition AuthMethodTypes :: "SessionWriteModel \<Rightarrow> UserAuthMethodType list" where
  "AuthMethodTypes wm =
     (let types = [];
          types = (if \<not> IsZero (PasswordCheckedAt wm)
                   then types @ [UserAuthMethodTypePassword] else types);
          types = (if \<not> IsZero (WebAuthNCheckedAt wm)
                   then (if WebAuthNUserVerified wm
                         then types @ [UserAuthMethodTypePasswordless]
                         else types @ [UserAuthMethodTypeU2F])
                   else types);
          types = (if \<not> IsZero (IntentCheckedAt wm)
                   then types @ [UserAuthMethodTypeIDP] else types);
          types = (if \<not> IsZero (TOTPCheckedAt wm)
                   then types @ [UserAuthMethodTypeTOTP] else types)
      in types)"

subsection \<open>The search query\<close>

text \<open>
  Modelled from the spec: the search query builder of package \<open>eventstore\<close> is not among
  the source files. A filter names the columns, an optional resource owner (\<open>None\<close>: no
  owner filter) and its sub-queries; a sub-query names aggregate types, aggregate ids and
  event kinds. A sub-query under construction is kept beside its builder until \<open>Builder\<close>
  hands the builder back.
\<close>

datatype Columns = ColumnsEvent | ColumnsMaxSequence

record SearchQuery =
  aggregateTypes :: "string list"
  aggregateIDs :: "string list"
  eventTypes :: "EventType list"

record SearchQueryBuilder =
  columns :: Columns
  resourceOwner :: "string option"
  queries :: "SearchQuery list"

definition NewSearchQueryBuilder :: "Columns \<Rightarrow> SearchQueryBuilder" where
  "NewSearchQueryBuilder c = \<lparr>columns = c, resourceOwner = None, queries = []\<rparr>"

definition AddQuery :: "SearchQueryBuilder \<Rightarrow> SearchQueryBuilder \<times> SearchQuery" where
  "AddQuery b = (b, \<lparr>aggregateTypes = [], aggregateIDs = [], eventTypes = []\<rparr>)"

definition AggregateTypes ::
  "string list \<Rightarrow> SearchQueryBuilder \<times> SearchQuery \<Rightarrow> SearchQueryBuilder \<times> SearchQuery" where
  "AggregateTypes ts bq = (fst bq, (snd bq)\<lparr>aggregateTypes := ts\<rparr>)"

definition AggregateIDs ::
  "string list \<Rightarrow> SearchQueryBuilder \<times> SearchQuery \<Rightarrow> SearchQueryBuilder \<times> SearchQuery" where
  "AggregateIDs ids bq = (fst bq, (snd bq)\<lparr>aggregateIDs := ids\<rparr>)"

definition EventTypes ::
  "EventType list \<Rightarrow> SearchQueryBuilder \<times> SearchQuery \<Rightarrow> SearchQueryBuilder \<times> SearchQuery" where
  "EventTypes ts bq = (fst bq, (snd bq)\<lparr>eventTypes := ts\<rparr>)"

definition Builder :: "SearchQueryBuilder \<times> SearchQuery \<Rightarrow> SearchQueryBuilder" where
  "Builder bq = (fst bq)\<lparr>queries := queries (fst bq) @ [snd bq]\<rparr>"

definition SetResourceOwner :: "string \<Rightarrow> SearchQueryBuilder \<Rightarrow> SearchQueryBuilder" where
  \<comment> \<open>the builder's method \<open>ResourceOwner\<close>\<close>
  "SetResourceOwner ro b = b\<lparr>resourceOwner := Some ro\<rparr>"

definition Query :: "SessionWriteModel \<Rightarrow> SearchQueryBuilder" where
  "Query wm =
     (let query =
        Builder
          (EventTypes
             [AddedType,
              UserCheckedType,
              PasswordCheckedType,
              IntentCheckedType,
              WebAuthNChallengedType,
              WebAuthNCheckedType,
              TOTPCheckedType,
              TokenSetType,
              MetadataSetType,
              TerminateType]
             (AggregateIDs [AggregateID (WriteModel wm)]
                (AggregateTypes [AggregateType]
                   (AddQuery (NewSearchQueryBuilder ColumnsEvent)))))
      in if ResourceOwner (WriteModel wm) \<noteq> ''''
         then SetResourceOwner (ResourceOwner (WriteModel wm)) query
         else query)"

section \<open>Properties\<close>

subsection \<open>Replay\<close>

lemma reduceEvents_append:
  "reduceEvents (es @ fs) wm = reduceEvents fs (reduceEvents es wm)"
  by (induction es arbitrary: wm) simp_all

lemmas reducer_defs =
  reduceAdded_def reduceUserChecked_def reducePasswordChecked_def reduceIntentChecked_def
  reduceWebAuthNChallenged_def reduceWebAuthNChecked_def reduceTOTPChecked_def
  reduceTokenSet_def reduceTerminate_def

text \<open>No reducer touches the embedded base, so the loop leaves it as it found it.\<close>

lemma reduceEvent_WriteModel: "WriteModel (reduceEvent e wm) = WriteModel wm"
  by (cases e) (simp_all add: reducer_defs)

lemma reduceEvents_WriteModel: "WriteModel (reduceEvents es wm) = WriteModel wm"
  by (induction es arbitrary: wm) (simp_all add: reduceEvent_WriteModel)

text \<open>
  The projection after \<open>Reduce\<close> is the fold of the buffered events, with the embedded
  base replaced by what the base reducer leaves.
\<close>

lemma replay_eq:
  "replay base wm es =
     (reduceEvents es (withEvents es wm))\<lparr>WriteModel := snd (base (WriteModel (withEvents es wm)))\<rparr>"
  by (simp add: replay_def Reduce_def withEvents_def reduceEvents_WriteModel split: prod.splits)

text \<open>The loop treats the embedded base as a passenger.\<close>

lemma reduceEvent_base_update:
  "reduceEvent e (wm\<lparr>WriteModel := b\<rparr>) = (reduceEvent e wm)\<lparr>WriteModel := b\<rparr>"
  by (cases e) (simp_all add: reducer_defs)

lemma reduceEvents_base_update:
  "reduceEvents es (wm\<lparr>WriteModel := b\<rparr>) = (reduceEvents es wm)\<lparr>WriteModel := b\<rparr>"
  by (induction es arbitrary: wm) (simp_all add: reduceEvent_base_update)

lemma replay_fold:
  "replay base wm es =
     (reduceEvents es wm)\<lparr>WriteModel := snd (base ((WriteModel wm)\<lparr>Events := es\<rparr>))\<rparr>"
  by (simp add: replay_eq withEvents_def reduceEvents_base_update)

text \<open>Replaying one more event is one more step of the switch on the session fields.\<close>

lemma replay_snoc:
  "replay base wm (es @ [e]) =
     (reduceEvent e (replay base wm es))
       \<lparr>WriteModel := snd (base ((WriteModel wm)\<lparr>Events := es @ [e]\<rparr>))\<rparr>"
  by (simp add: replay_fold reduceEvents_append reduceEvent_base_update)

subsection \<open>The user identity\<close>

text \<open>
  Claim C1 as stated (first writer wins) fails: after two user-checked events, the first
  for user \<open>u1\<close> and the second for user \<open>u2\<close>, \<open>UserID\<close> is not \<open>u1\<close>.
\<close>

theorem userID_first_writer_counterexample:
  "UserID (replay clearEvents (NewSessionWriteModel ''s1'' ''org1'')
     [UserCheckedEvent ''u1'' 1, UserCheckedEvent ''u2'' 2]) \<noteq> ''u1''"
  by (simp add: replay_fold reducer_defs)

lemma reduceEvents_UserID_unchanged:
  "\<forall>u' t'. UserCheckedEvent u' t' \<notin> set es \<Longrightarrow> UserID (reduceEvents es wm) = UserID wm"
proof (induction es arbitrary: wm)
  case Nil
  show ?case by simp
next
  case (Cons e es)
  have "UserID (reduceEvent e wm) = UserID wm"
    using Cons.prems by (cases e) (auto simp add: reducer_defs)
  moreover have "UserID (reduceEvents es (reduceEvent e wm)) = UserID (reduceEvent e wm)"
    using Cons.prems by (intro Cons.IH) simp
  ultimately show ?case by simp
qed

text \<open>
  Claim C1, amended: \<open>UserID\<close> is last-writer-wins. After folding any sequence that contains
  a user-checked event, \<open>UserID\<close> is the user identity carried by the last user-checked
  event in replay order (the one no other user-checked event follows).
\<close>

theorem userID_last_writer_wins:
  assumes "\<forall>u' t'. UserCheckedEvent u' t' \<notin> set es2"
  shows "UserID (replay base wm (es1 @ UserCheckedEvent u t # es2)) = u"
proof -
  have "UserID (replay base wm (es1 @ UserCheckedEvent u t # es2))
        = UserID (reduceEvents es2 (reduceUserChecked u t (reduceEvents es1 wm)))"
    by (simp add: replay_fold reduceEvents_append)
  also have "\<dots> = UserID (reduceUserChecked u t (reduceEvents es1 wm))"
    using assms by (rule reduceEvents_UserID_unchanged)
  also have "\<dots> = u"
    by (simp add: reduceUserChecked_def)
  finally show ?thesis .
qed

text \<open>
  The amended claim C1 at a concrete log: two user-checked events followed by a
  password check.
\<close>

theorem userID_last_writer_wins_witness:
  "(\<forall>u' t'. UserCheckedEvent u' t' \<notin> set [PasswordCheckedEvent 3]) \<and>
   UserID (replay clearEvents (NewSessionWriteModel ''s1'' ''org1'')
     ([AddedEvent, UserCheckedEvent ''u1'' 1] @ UserCheckedEvent ''u2'' 2 #
      [PasswordCheckedEvent 3])) = ''u2''"
  using userID_last_writer_wins
          [of "[PasswordCheckedEvent 3]" clearEvents "NewSessionWriteModel ''s1'' ''org1''"
              "[AddedEvent, UserCheckedEvent ''u1'' 1]" "''u2''" 2]
  by simp

subsection \<open>Metadata\<close>

text \<open>
  The switch has no case for a metadata-set event, so no replay changes the metadata map.
\<close>

lemma reduceEvents_Metadata: "Metadata (reduceEvents es wm) = Metadata wm"
proof (induction es arbitrary: wm)
  case Nil
  show ?case by simp
next
  case (Cons e es)
  have "Metadata (reduceEvent e wm) = Metadata wm"
    by (cases e) (simp_all add: reducer_defs)
  with Cons.IH show ?case by simp
qed

lemma replay_Metadata: "Metadata (replay base wm es) = Metadata wm"
  by (simp add: replay_fold reduceEvents_Metadata)

text \<open>
  Claim C2 (a metadata-set event upserts its key/value pairs into the metadata map) at the
  log [added, metadata-set {k \<mapsto> [1]}] of a fresh model: after \<open>Reduce\<close> the key \<open>k\<close> is
  absent from the metadata map, where the claim has it present with value [1].
\<close>

theorem metadata_set_not_folded:
  "Metadata (replay clearEvents (NewSessionWriteModel ''s1'' ''org1'')
     [AddedEvent, MetadataSetEvent [(''k'', [1])]]) ''k'' = None"
  by (simp add: replay_fold reducer_defs NewSessionWriteModel_def)

subsection \<open>The authentication time\<close>

text \<open>
  Claim C3 as stated (the result is the maximum of the four check times) fails on a state
  whose four check times all lie before the zero time, here by one nanosecond: none of them
  is after the initial \<open>authTime\<close>, so the zero time is returned, which is none of the four.
\<close>

theorem AuthenticationTime_max_counterexample:
  "AuthenticationTime ((NewSessionWriteModel ''s1'' ''org1'')
      \<lparr>PasswordCheckedAt := - 1, WebAuthNCheckedAt := - 1,
       TOTPCheckedAt := - 1, IntentCheckedAt := - 1\<rparr>)
   \<noteq> Max {- 1, - 1, - 1, - 1}"
  by (simp add: AuthenticationTime_def After_def zeroTime_def)

text \<open>
  Claim C3, amended: for every projection state, \<open>AuthenticationTime\<close> returns the latest of
  the zero time, \<open>PasswordCheckedAt\<close>, \<open>WebAuthNCheckedAt\<close>, \<open>TOTPCheckedAt\<close> and
  \<open>IntentCheckedAt\<close>. So it is the maximum of the four whenever one of them is after the
  zero time, and the zero time when none of the four is set; \<open>UserCheckedAt\<close> never
  contributes to the result.
\<close>

theorem AuthenticationTime_latest:
  "AuthenticationTime wm =
     max zeroTime
       (Max {PasswordCheckedAt wm, WebAuthNCheckedAt wm, TOTPCheckedAt wm, IntentCheckedAt wm})
   \<and> ((After (PasswordCheckedAt wm) zeroTime \<or> After (WebAuthNCheckedAt wm) zeroTime \<or>
        After (TOTPCheckedAt wm) zeroTime \<or> After (IntentCheckedAt wm) zeroTime) \<longrightarrow>
       AuthenticationTime wm =
         Max {PasswordCheckedAt wm, WebAuthNCheckedAt wm, TOTPCheckedAt wm, IntentCheckedAt wm})
   \<and> (IsZero (PasswordCheckedAt wm) \<and> IsZero (WebAuthNCheckedAt wm) \<and>
        IsZero (TOTPCheckedAt wm) \<and> IsZero (IntentCheckedAt wm) \<longrightarrow>
       AuthenticationTime wm = zeroTime)
   \<and> AuthenticationTime (wm\<lparr>UserCheckedAt := t\<rparr>) = AuthenticationTime wm"
  by (simp add: AuthenticationTime_def After_def zeroTime_def IsZero_def max_def)

text \<open>
  The amended claim C3 at two states: one with a password check at 5 and a TOTP check at 9
  (and a user check at 20, which does not count), and a fresh model with no check at all.
\<close>

theorem AuthenticationTime_latest_witness:
  "After (TOTPCheckedAt ((NewSessionWriteModel ''s1'' ''org1'')
            \<lparr>UserCheckedAt := 20, PasswordCheckedAt := 5, TOTPCheckedAt := 9\<rparr>)) zeroTime
   \<and> AuthenticationTime ((NewSessionWriteModel ''s1'' ''org1'')
        \<lparr>UserCheckedAt := 20, PasswordCheckedAt := 5, TOTPCheckedAt := 9\<rparr>) = 9
   \<and> IsZero (PasswordCheckedAt (NewSessionWriteModel ''s1'' ''org1''))
   \<and> IsZero (WebAuthNCheckedAt (NewSessionWriteModel ''s1'' ''org1''))
   \<and> IsZero (TOTPCheckedAt (NewSessionWriteModel ''s1'' ''org1''))
   \<and> IsZero (IntentCheckedAt (NewSessionWriteModel ''s1'' ''org1''))
   \<and> AuthenticationTime (NewSessionWriteModel ''s1'' ''org1'') = zeroTime"
  using AuthenticationTime_latest
          [of "(NewSessionWriteModel ''s1'' ''org1'')
                 \<lparr>UserCheckedAt := 20, PasswordCheckedAt := 5, TOTPCheckedAt := 9\<rparr>"]
        AuthenticationTime_latest [of "NewSessionWriteModel ''s1'' ''org1''"]
  by (simp add: NewSessionWriteModel_def After_def IsZero_def zeroTime_def)

text \<open>
  Claim C6 as stated (appending any check event never decreases the authentication time)
  fails: after a password check at 10, a further password check that carries the earlier
  time 5 moves the authentication time back from 10 to 5.
\<close>

theorem AuthenticationTime_decrease_counterexample:
  "\<not> AuthenticationTime
       (replay clearEvents (NewSessionWriteModel ''s1'' ''org1'') [PasswordCheckedEvent 10])
     \<le> AuthenticationTime
         (replay clearEvents (NewSessionWriteModel ''s1'' ''org1'')
            ([PasswordCheckedEvent 10] @ [PasswordCheckedEvent 5]))"
  by (simp add: replay_fold reducer_defs AuthenticationTime_def After_def zeroTime_def
        NewSessionWriteModel_def)

text \<open>
  Claim C6, amended: for every event sequence E and every additional check event e
  (password-checked, webauthn-checked, totp-checked or intent-checked) whose check time is
  not earlier than the timestamp of the same kind in the projection after folding E,
  \<open>AuthenticationTime\<close> after folding E followed by e is never earlier than
  \<open>AuthenticationTime\<close> after folding E alone.
\<close>

theorem AuthenticationTime_monotone:
  "(PasswordCheckedAt (replay base wm es) \<le> t \<longrightarrow>
      AuthenticationTime (replay base wm es)
        \<le> AuthenticationTime (replay base wm (es @ [PasswordCheckedEvent t])))
   \<and> (WebAuthNCheckedAt (replay base wm es) \<le> t \<longrightarrow>
      AuthenticationTime (replay base wm es)
        \<le> AuthenticationTime (replay base wm (es @ [WebAuthNCheckedEvent t v])))
   \<and> (TOTPCheckedAt (replay base wm es) \<le> t \<longrightarrow>
      AuthenticationTime (replay base wm es)
        \<le> AuthenticationTime (replay base wm (es @ [TOTPCheckedEvent t])))
   \<and> (IntentCheckedAt (replay base wm es) \<le> t \<longrightarrow>
      AuthenticationTime (replay base wm es)
        \<le> AuthenticationTime (replay base wm (es @ [IntentCheckedEvent t])))"
  by (simp add: replay_snoc reducer_defs AuthenticationTime_def After_def zeroTime_def)

text \<open>
  The amended claim C6 after the log [added, password-checked(10), totp-checked(11)], for a
  further check of each kind at time 12.
\<close>

theorem AuthenticationTime_monotone_witness:
  "PasswordCheckedAt (replay clearEvents (NewSessionWriteModel ''s1'' ''org1'')
      [AddedEvent, PasswordCheckedEvent 10, TOTPCheckedEvent 11]) \<le> 12
   \<and> WebAuthNCheckedAt (replay clearEvents (NewSessionWriteModel ''s1'' ''org1'')
      [AddedEvent, PasswordCheckedEvent 10, TOTPCheckedEvent 11]) \<le> 12
   \<and> TOTPCheckedAt (replay clearEvents (NewSessionWriteModel ''s1'' ''org1'')
      [AddedEvent, PasswordCheckedEvent 10, TOTPCheckedEvent 11]) \<le> 12
   \<and> IntentCheckedAt (replay clearEvents (NewSessionWriteModel ''s1'' ''org1'')
      [AddedEvent, PasswordCheckedEvent 10, TOTPCheckedEvent 11]) \<le> 12
   \<and> AuthenticationTime (replay clearEvents (NewSessionWriteModel ''s1'' ''org1'')
        [AddedEvent, PasswordCheckedEvent 10, TOTPCheckedEvent 11])
       \<le> AuthenticationTime (replay clearEvents (NewSessionWriteModel ''s1'' ''org1'')
            ([AddedEvent, PasswordCheckedEvent 10, TOTPCheckedEvent 11] @
             [PasswordCheckedEvent 12]))
   \<and> AuthenticationTime (replay clearEvents (NewSessionWriteModel ''s1'' ''org1'')
        [AddedEvent, PasswordCheckedEvent 10, TOTPCheckedEvent 11])
       \<le> AuthenticationTime (replay clearEvents (NewSessionWriteModel ''s1'' ''org1'')
            ([AddedEvent, PasswordCheckedEvent 10, TOTPCheckedEvent 11] @
             [WebAuthNCheckedEvent 12 True]))
   \<and> AuthenticationTime (replay clearEvents (NewSessionWriteModel ''s1'' ''org1'')
        [AddedEvent, PasswordCheckedEvent 10, TOTPCheckedEvent 11])
       \<le> AuthenticationTime (replay clearEvents (NewSessionWriteModel ''s1'' ''org1'')
            ([AddedEvent, PasswordCheckedEvent 10, TOTPCheckedEvent 11] @
             [TOTPCheckedEvent 12]))
   \<and> AuthenticationTime (replay clearEvents (NewSessionWriteModel ''s1'' ''org1'')
        [AddedEvent, PasswordCheckedEvent 10, TOTPCheckedEvent 11])
       \<le> AuthenticationTime (replay clearEvents (NewSessionWriteModel ''s1'' ''org1'')
            ([AddedEvent, PasswordCheckedEvent 10, TOTPCheckedEvent 11] @
             [IntentCheckedEvent 12]))"
  using AuthenticationTime_monotone
          [of clearEvents "NewSessionWriteModel ''s1'' ''org1''"
              "[AddedEvent, PasswordCheckedEvent 10, TOTPCheckedEvent 11]" 12 True]
  by (simp add: replay_fold reducer_defs NewSessionWriteModel_def zeroTime_def)

subsection \<open>The authenticated factors\<close>

text \<open>
  Claim C4: for every projection state, \<open>AuthMethodTypes\<close> is the list of exactly the factor
  kinds whose check timestamp is non-zero, in the fixed order password, webauthn, intent,
  totp; the WebAuthN factor is the passwordless kind when \<open>WebAuthNUserVerified\<close> is true and
  the U2F kind otherwise.
\<close>

theorem AuthMethodTypes_factors:
  "AuthMethodTypes wm =
     map snd (filter (\<lambda>(checkedAt, kind). \<not> IsZero checkedAt)
       [(PasswordCheckedAt wm, UserAuthMethodTypePassword),
        (WebAuthNCheckedAt wm,
           if WebAuthNUserVerified wm
           then UserAuthMethodTypePasswordless else UserAuthMethodTypeU2F),
        (IntentCheckedAt wm, UserAuthMethodTypeIDP),
        (TOTPCheckedAt wm, UserAuthMethodTypeTOTP)])"
  by (simp add: AuthMethodTypes_def Let_def)

text \<open>
  Claim C10 as stated fails when the later webauthn-checked event carries the zero time:
  after a verified check at 5 and an unverified check at the zero time, \<open>AuthMethodTypes\<close>
  does not report the U2F kind (it reports no WebAuthN kind).
\<close>

theorem webAuthN_zero_time_counterexample:
  "UserAuthMethodTypeU2F \<notin> set (AuthMethodTypes
     (replay clearEvents (NewSessionWriteModel ''s1'' ''org1'')
        ([WebAuthNCheckedEvent 5 True] @ [WebAuthNCheckedEvent zeroTime False])))"
  by (simp add: replay_fold reducer_defs AuthMethodTypes_def IsZero_def zeroTime_def
        NewSessionWriteModel_def)

text \<open>
  Claim C10, amended: \<open>WebAuthNUserVerified\<close> is last-writer-wins. For every event sequence,
  folding a further webauthn-checked event overwrites both \<open>WebAuthNCheckedAt\<close> and
  \<open>WebAuthNUserVerified\<close> with that event's values, so a later webauthn-checked event with
  userVerified = false and a non-zero check time makes \<open>AuthMethodTypes\<close> report the U2F
  kind and not the passwordless kind, whatever came before.
\<close>

theorem webAuthN_last_writer_wins:
  "WebAuthNCheckedAt (replay base wm (es @ [WebAuthNCheckedEvent t v])) = t
   \<and> WebAuthNUserVerified (replay base wm (es @ [WebAuthNCheckedEvent t v])) = v
   \<and> (\<not> IsZero t \<longrightarrow>
        UserAuthMethodTypeU2F \<in>
          set (AuthMethodTypes (replay base wm (es @ [WebAuthNCheckedEvent t False])))
        \<and> UserAuthMethodTypePasswordless \<notin>
          set (AuthMethodTypes (replay base wm (es @ [WebAuthNCheckedEvent t False]))))"
  by (simp add: replay_snoc reduceWebAuthNChecked_def AuthMethodTypes_def Let_def)

text \<open>
  The amended claim C10 at a concrete log: a verified check at 5 reports passwordless; a
  later unverified check at 7 turns the report into U2F.
\<close>

theorem webAuthN_last_writer_wins_witness:
  "\<not> IsZero 7
   \<and> AuthMethodTypes (replay clearEvents (NewSessionWriteModel ''s1'' ''org1'')
        [WebAuthNCheckedEvent 5 True]) = [UserAuthMethodTypePasswordless]
   \<and> UserAuthMethodTypeU2F \<in> set (AuthMethodTypes
        (replay clearEvents (NewSessionWriteModel ''s1'' ''org1'')
           ([WebAuthNCheckedEvent 5 True] @ [WebAuthNCheckedEvent 7 False])))
   \<and> UserAuthMethodTypePasswordless \<notin> set (AuthMethodTypes
        (replay clearEvents (NewSessionWriteModel ''s1'' ''org1'')
           ([WebAuthNCheckedEvent 5 True] @ [WebAuthNCheckedEvent 7 False])))"
  using webAuthN_last_writer_wins
          [of clearEvents "NewSessionWriteModel ''s1'' ''org1''"
              "[WebAuthNCheckedEvent 5 True]" 7 False]
  by (simp add: IsZero_def replay_fold reducer_defs AuthMethodTypes_def
        NewSessionWriteModel_def zeroTime_def)

subsection \<open>The challenge and the lifecycle state\<close>

text \<open>
  Claim C5 (challenge exclusivity): after folding any event sequence whose last event is a
  webauthn-checked event, the challenge is nil, whatever events, webauthn-challenged ones
  included, came before.
\<close>

theorem challenge_cleared_after_check:
  "WebAuthNChallenge (replay base wm (es @ [WebAuthNCheckedEvent t v])) = None"
  by (simp add: replay_snoc reduceWebAuthNChecked_def)

text \<open>
  Claim C7 (idempotent terminate): for every event sequence, folding it with two terminate
  events appended and folding it with one terminate event appended both end in state
  terminated, and the two projections agree on every session field (they can differ only
  in what the base reducer keeps in the embedded base).
\<close>

theorem terminate_idempotent:
  "State (replay base wm (es @ [TerminateEvent, TerminateEvent])) = SessionStateTerminated
   \<and> State (replay base wm (es @ [TerminateEvent])) = SessionStateTerminated
   \<and> (replay base wm (es @ [TerminateEvent, TerminateEvent]))
        \<lparr>WriteModel := WriteModel (replay base wm (es @ [TerminateEvent]))\<rparr>
      = replay base wm (es @ [TerminateEvent])"
  by (simp add: replay_fold reduceEvents_append reduceTerminate_def)

text \<open>
  No reducer reads \<open>State\<close>: a step of the switch from a model in any lifecycle state
  differs from the same step from any other lifecycle state in the \<open>State\<close> field at most.
\<close>

lemma reduceEvent_State_passenger:
  "reduceEvent e (wm\<lparr>State := s\<rparr>) =
     (reduceEvent e wm)\<lparr>State := State (reduceEvent e (wm\<lparr>State := s\<rparr>))\<rparr>"
  by (cases e) (simp_all add: reducer_defs)

lemma reduceEvents_ignores_State:
  "(reduceEvents fs (wm\<lparr>State := s\<rparr>))\<lparr>State := s'\<rparr> = (reduceEvents fs wm)\<lparr>State := s'\<rparr>"
proof (induction fs arbitrary: wm s)
  case Nil
  show ?case by simp
next
  case (Cons e fs)
  define x where "x = State (reduceEvent e (wm\<lparr>State := s\<rparr>))"
  have x: "reduceEvent e (wm\<lparr>State := s\<rparr>) = (reduceEvent e wm)\<lparr>State := x\<rparr>"
    unfolding x_def by (rule reduceEvent_State_passenger)
  show ?case
    by (simp add: x Cons.IH)
qed

text \<open>
  Claim C8: the reducer keeps folding events that arrive after a terminate event.
  \<^item> The scenario: folding [added, password-checked(t1), terminate, password-checked(t2)]
    yields state terminated and \<open>PasswordCheckedAt\<close> = t2.
  \<^item> In general: for every log, the events \<open>fs\<close> that follow a terminate event are folded
    as if the terminate event were not there; taking it out of the log changes no session
    field other than \<open>State\<close>.
  \<^item> Kind by kind: an event of each kind that directly follows a terminate event has its
    full effect, after any prefix. A user, password, intent, WebAuthN or TOTP check sets its
    fields, a challenge is stored, a token is set, and an added event even sets the state
    back to active.
\<close>

theorem replay_after_terminate:
  "State (replay base wm
     [AddedEvent, PasswordCheckedEvent t1, TerminateEvent, PasswordCheckedEvent t2])
     = SessionStateTerminated
   \<and> PasswordCheckedAt (replay base wm
     [AddedEvent, PasswordCheckedEvent t1, TerminateEvent, PasswordCheckedEvent t2]) = t2
   \<and> (replay base wm (es @ TerminateEvent # fs))\<lparr>State := s, WriteModel := b\<rparr>
       = (replay base wm (es @ fs))\<lparr>State := s, WriteModel := b\<rparr>
   \<and> State (replay base wm (es @ [TerminateEvent, AddedEvent])) = SessionStateActive
   \<and> UserID (replay base wm (es @ [TerminateEvent, UserCheckedEvent u t])) = u
   \<and> UserCheckedAt (replay base wm (es @ [TerminateEvent, UserCheckedEvent u t])) = t
   \<and> PasswordCheckedAt (replay base wm (es @ [TerminateEvent, PasswordCheckedEvent t])) = t
   \<and> IntentCheckedAt (replay base wm (es @ [TerminateEvent, IntentCheckedEvent t])) = t
   \<and> WebAuthNChallenge
        (replay base wm (es @ [TerminateEvent, WebAuthNChallengedEvent c ids uv rp]))
       = Some \<lparr>Challenge = c, AllowedCrentialIDs = ids, UserVerification = uv, RPID = rp\<rparr>
   \<and> WebAuthNChallenge (replay base wm (es @ [TerminateEvent, WebAuthNCheckedEvent t v])) = None
   \<and> WebAuthNCheckedAt (replay base wm (es @ [TerminateEvent, WebAuthNCheckedEvent t v])) = t
   \<and> WebAuthNUserVerified (replay base wm (es @ [TerminateEvent, WebAuthNCheckedEvent t v])) = v
   \<and> TOTPCheckedAt (replay base wm (es @ [TerminateEvent, TOTPCheckedEvent t])) = t
   \<and> TokenID (replay base wm (es @ [TerminateEvent, TokenSetEvent tok])) = tok
   \<and> State (replay base wm (es @ [TerminateEvent, TerminateEvent])) = SessionStateTerminated"
proof -
  have scenario:
    "State (replay base wm
       [AddedEvent, PasswordCheckedEvent t1, TerminateEvent, PasswordCheckedEvent t2])
       = SessionStateTerminated
     \<and> PasswordCheckedAt (replay base wm
       [AddedEvent, PasswordCheckedEvent t1, TerminateEvent, PasswordCheckedEvent t2]) = t2"
    by (simp add: replay_fold reducer_defs)
  have "(reduceEvents fs ((reduceEvents es wm)\<lparr>State := SessionStateTerminated\<rparr>))\<lparr>State := s\<rparr>
        = (reduceEvents fs (reduceEvents es wm))\<lparr>State := s\<rparr>"
    by (rule reduceEvents_ignores_State)
  then have "(reduceEvents fs ((reduceEvents es wm)\<lparr>State := SessionStateTerminated\<rparr>))
               \<lparr>State := s, WriteModel := b\<rparr>
        = (reduceEvents fs (reduceEvents es wm))\<lparr>State := s, WriteModel := b\<rparr>"
    by simp
  then have general:
    "(replay base wm (es @ TerminateEvent # fs))\<lparr>State := s, WriteModel := b\<rparr>
       = (replay base wm (es @ fs))\<lparr>State := s, WriteModel := b\<rparr>"
    by (simp add: replay_fold reduceEvents_append reduceTerminate_def)
  have kinds:
    "State (replay base wm (es @ [TerminateEvent, AddedEvent])) = SessionStateActive
     \<and> UserID (replay base wm (es @ [TerminateEvent, UserCheckedEvent u t])) = u
     \<and> UserCheckedAt (replay base wm (es @ [TerminateEvent, UserCheckedEvent u t])) = t
     \<and> PasswordCheckedAt (replay base wm (es @ [TerminateEvent, PasswordCheckedEvent t])) = t
     \<and> IntentCheckedAt (replay base wm (es @ [TerminateEvent, IntentCheckedEvent t])) = t
     \<and> WebAuthNChallenge
          (replay base wm (es @ [TerminateEvent, WebAuthNChallengedEvent c ids uv rp]))
         = Some \<lparr>Challenge = c, AllowedCrentialIDs = ids, UserVerification = uv, RPID = rp\<rparr>
     \<and> WebAuthNChallenge (replay base wm (es @ [TerminateEvent, WebAuthNCheckedEvent t v])) = None
     \<and> WebAuthNCheckedAt (replay base wm (es @ [TerminateEvent, WebAuthNCheckedEvent t v])) = t
     \<and> WebAuthNUserVerified (replay base wm (es @ [TerminateEvent, WebAuthNCheckedEvent t v])) = v
     \<and> TOTPCheckedAt (replay base wm (es @ [TerminateEvent, TOTPCheckedEvent t])) = t
     \<and> TokenID (replay base wm (es @ [TerminateEvent, TokenSetEvent tok])) = tok
     \<and> State (replay base wm (es @ [TerminateEvent, TerminateEvent])) = SessionStateTerminated"
    by (simp add: replay_fold reduceEvents_append reducer_defs)
  from scenario general kinds show ?thesis by blast
qed

subsection \<open>The filter built by Query\<close>

text \<open>
  Claim C9: \<open>Query\<close> builds a filter on event columns with one sub-query, restricted to
  aggregate type session, the model's aggregate id and exactly the ten session event kinds;
  the resource-owner filter is the model's resource owner when that is a non-empty string
  and is absent when it is empty.
\<close>

theorem Query_filter:
  "columns (Query wm) = ColumnsEvent
   \<and> queries (Query wm) =
       [\<lparr>aggregateTypes = [AggregateType],
         aggregateIDs = [AggregateID (WriteModel wm)],
         eventTypes =
           [AddedType, UserCheckedType, PasswordCheckedType, IntentCheckedType,
            WebAuthNChallengedType, WebAuthNCheckedType, TOTPCheckedType, TokenSetType,
            MetadataSetType, TerminateType]\<rparr>]
   \<and> AggregateType = ''session''
   \<and> (ResourceOwner (WriteModel wm) \<noteq> '''' \<longrightarrow>
        resourceOwner (Query wm) = Some (ResourceOwner (WriteModel wm)))
   \<and> (ResourceOwner (WriteModel wm) = '''' \<longrightarrow> resourceOwner (Query wm) = None)"
  by (simp add: Query_def Builder_def EventTypes_def AggregateIDs_def AggregateTypes_def
        AddQuery_def NewSearchQueryBuilder_def SetResourceOwner_def AggregateType_def Let_def)

text \<open>Claim C9 at a model with resource owner \<open>org1\<close> and at one with none.\<close>

theorem Query_filter_witness:
  "ResourceOwner (WriteModel (NewSessionWriteModel ''s1'' ''org1'')) \<noteq> ''''
   \<and> resourceOwner (Query (NewSessionWriteModel ''s1'' ''org1'')) = Some ''org1''
   \<and> ResourceOwner (WriteModel (NewSessionWriteModel ''s1'' '''')) = ''''
   \<and> resourceOwner (Query (NewSessionWriteModel ''s1'' '''')) = None"
  using Query_filter [of "NewSessionWriteModel ''s1'' ''org1''"]
        Query_filter [of "NewSessionWriteModel ''s1'' ''''"]
  by (simp add: NewSessionWriteModel_def)

end
